theory Spec2Isabelle
  imports Main
begin

section \<open>Resilient client (libs/sdk/src/http-client.ts)\<close>

text \<open>
  JavaScript values that travel through request configurations and bodies: the
  gateway and the SDK services only build objects out of strings, so a small
  JSON-like type is enough. \<open>JUndefined\<close> is \<^verbatim>\<open>undefined\<close>.
\<close>

datatype jsvalue = JUndefined | JString string | JObject "(string \<times> jsvalue) list"

text \<open>Truthiness of a value, as \<^verbatim>\<open>!!v\<close> computes it.\<close>

fun truthy :: "jsvalue \<Rightarrow> bool" where
  "truthy JUndefined = False"
| "truthy (JString s) = (s \<noteq> [])"
| "truthy (JObject kvs) = True"

text \<open>Property access \<^verbatim>\<open>v?.k\<close>: the first own property of that name, else undefined.\<close>

fun getProp :: "jsvalue \<Rightarrow> string \<Rightarrow> jsvalue" where
  "getProp (JObject kvs) k = (case map_of kvs k of Some v \<Rightarrow> v | None \<Rightarrow> JUndefined)"
| "getProp v k = JUndefined"

text \<open>
  \<^verbatim>\<open>HttpClientConfig\<close>: every field but the base URL is optional; the constructor
  spreads the given configuration over the defaults 5000 / 3 / 1000.
\<close>

record HttpClientConfig =
  baseURL :: string
  timeout :: "nat option"
  maxRetries :: "nat option"
  retryDelay :: "nat option"

record HttpClient =
  c_baseURL :: string
  c_timeout :: nat
  c_maxRetries :: nat
  c_retryDelay :: nat

definition new_HttpClient :: "HttpClientConfig \<Rightarrow> HttpClient" where
  "new_HttpClient config =
     \<lparr> c_baseURL = baseURL config,
       c_timeout = (case timeout config of None \<Rightarrow> 5000 | Some t \<Rightarrow> t),
       c_maxRetries = (case maxRetries config of None \<Rightarrow> 3 | Some m \<Rightarrow> m),
       c_retryDelay = (case retryDelay config of None \<Rightarrow> 1000 | Some d \<Rightarrow> d) \<rparr>"

text \<open>
  What one attempt yields. Axios resolves with a response (status and decoded
  body) or rejects with an error object; of the error the client reads
  \<^verbatim>\<open>response\<close> (absent when nothing was received), \<^verbatim>\<open>code\<close> and \<^verbatim>\<open>message\<close>.
\<close>

record 'a AxiosResponse =
  status :: nat
  data :: 'a

record 'a AxiosError =
  response :: "'a AxiosResponse option"
  code :: "string option"
  message :: string

type_synonym 'a attempt = "'a AxiosError + 'a AxiosResponse"

text \<open>\<^verbatim>\<open>shouldRetry\<close>, disjunct by disjunct.\<close>

definition shouldRetry :: "'a AxiosError \<Rightarrow> bool" where
  "shouldRetry err \<longleftrightarrow>
     response err = None
     \<or> (case response err of None \<Rightarrow> False | Some r \<Rightarrow> 500 \<le> status r \<and> status r < 600)
     \<or> code err = Some ''ECONNRESET''
     \<or> code err = Some ''ETIMEDOUT''"

text \<open>
  The observable steps of a call: \<open>Request k\<close> is the invocation of the request
  thunk made at retry count \<open>k\<close>, \<open>Delay ms\<close> is one \<^verbatim>\<open>await this.delay(ms)\<close>.
\<close>

datatype step = Request nat | Delay nat

fun is_Request :: "step \<Rightarrow> bool" where
  "is_Request (Request k) = True"
| "is_Request (Delay ms) = False"

definition attempts :: "step list \<Rightarrow> nat" where
  "attempts tr = length (filter is_Request tr)"

fun waits :: "step list \<Rightarrow> nat list" where
  "waits [] = []"
| "waits (Request k # tr) = waits tr"
| "waits (Delay ms # tr) = ms # waits tr"

text \<open>
  \<^verbatim>\<open>retryRequest(requestFn, retryCount = 0)\<close>. The thunk is invoked once at each
  level of the recursion, so its outcomes are indexed by the retry count:
  \<open>requestFn k\<close> is what the invocation at retry count \<open>k\<close> yields. The result
  carries the steps taken and the resolved response (\<open>Inr\<close>) or the thrown
  error (\<open>Inl\<close>).
\<close>

function retryRequest ::
  "HttpClient \<Rightarrow> (nat \<Rightarrow> 'a attempt) \<Rightarrow> nat \<Rightarrow> step list \<times> 'a attempt" where
  "retryRequest this requestFn retryCount =
     (case requestFn retryCount of
        Inr resp \<Rightarrow> ([Request retryCount], Inr resp)
      | Inl err \<Rightarrow>
          if retryCount < c_maxRetries this \<and> shouldRetry err
          then (let (tr, res) = retryRequest this requestFn (retryCount + 1)
                in (Request retryCount # Delay (c_retryDelay this) # tr, res))
          else ([Request retryCount], Inl err))"
  by pat_completeness auto
termination
  by (relation "measure (\<lambda>(this, requestFn, retryCount). c_maxRetries this - retryCount)") auto

declare retryRequest.simps [simp del]

text \<open>
  The five verbs \<^verbatim>\<open>get\<close>, \<^verbatim>\<open>post\<close>, \<^verbatim>\<open>put\<close>, \<^verbatim>\<open>patch\<close>, \<^verbatim>\<open>delete\<close> share one body:
  run the thunk under \<^verbatim>\<open>retryRequest\<close> and return \<^verbatim>\<open>response.data\<close>; an error
  thrown by \<^verbatim>\<open>retryRequest\<close> passes through untouched.
\<close>

definition call :: "HttpClient \<Rightarrow> (nat \<Rightarrow> 'a attempt) \<Rightarrow> step list \<times> ('a AxiosError + 'a)" where
  "call this requestFn =
     (let (tr, res) = retryRequest this requestFn 0
      in (tr, case res of Inl err \<Rightarrow> Inl err | Inr resp \<Rightarrow> Inr (data resp)))"

text \<open>The steps of a call that retries at counts \<open>k, \<dots>, m - 1\<close> and stops at \<open>m\<close>.\<close>

definition retry_steps :: "HttpClient \<Rightarrow> nat \<Rightarrow> nat \<Rightarrow> step list" where
  "retry_steps this k m =
     concat (map (\<lambda>i. [Request i, Delay (c_retryDelay this)]) [k..<m]) @ [Request m]"

text \<open>A failure the specification calls retryable: nothing received, or a 5xx.\<close>

definition server_error :: "'a AxiosError \<Rightarrow> bool" where
  "server_error err \<longleftrightarrow>
     (case response err of None \<Rightarrow> False | Some r \<Rightarrow> 500 \<le> status r \<and> status r < 600)"

definition no_response :: "'a AxiosError \<Rightarrow> bool" where
  "no_response err \<longleftrightarrow> response err = None"


text \<open>Concrete clients, errors and targets used to run the model.\<close>

definition default_client :: HttpClient where
  "default_client =
     new_HttpClient \<lparr> baseURL = ''http://user-service:3001'', timeout = None,
                      maxRetries = None, retryDelay = None \<rparr>"

definition status_error :: "nat \<Rightarrow> string option \<Rightarrow> unit AxiosError" where
  "status_error st c =
     \<lparr> response = Some \<lparr> status = st, data = () \<rparr>, code = c,
       message = ''Request failed'' \<rparr>"

text \<open>
  The errors the Axios instance rejects with, which are the only ones
  \<^verbatim>\<open>retryRequest\<close> (a private method, fed by \<^verbatim>\<open>this.client\<close> alone) ever catches: a
  response is attached by the status check, under the code \<^verbatim>\<open>ERR_BAD_REQUEST\<close> or
  \<^verbatim>\<open>ERR_BAD_RESPONSE\<close>; the connection-level codes \<^verbatim>\<open>ECONNRESET\<close> and \<^verbatim>\<open>ETIMEDOUT\<close>
  come without a response.
\<close>

definition axios_shaped :: "'a AxiosError \<Rightarrow> bool" where
  "axios_shaped err \<longleftrightarrow>
     (response err \<noteq> None \<longrightarrow>
        code err \<noteq> Some ''ECONNRESET'' \<and> code err \<noteq> Some ''ETIMEDOUT'')"

text \<open>A target that answers 503 once and 404 from then on.\<close>

definition unavailable_then_missing :: "nat \<Rightarrow> unit attempt" where
  "unavailable_then_missing k =
     (if k = 0 then Inl (status_error 503 (Some ''ERR_BAD_RESPONSE''))
      else Inl (status_error 404 (Some ''ERR_BAD_REQUEST'')))"

text \<open>A target that answers 503 three times and then 200.\<close>

definition flaky_target :: "nat \<Rightarrow> string attempt" where
  "flaky_target k =
     (if k < 3
      then Inl \<lparr> response = Some \<lparr> status = 503, data = ''unavailable'' \<rparr>, code = None,
                 message = ''Request failed with status code 503'' \<rparr>
      else Inr \<lparr> status = 200, data = ''ok'' \<rparr>)"

section \<open>Notification consumer pipeline (notification-service)\<close>

text \<open>
  The service, its entity and the email service it calls reach the sources as
  \<^verbatim>\<open>entities/notification.entity.ts\<close> and \<^verbatim>\<open>services/notification.service.spec.ts\<close>.
  Logger calls only write to the console and are left out.
\<close>

datatype NotificationType = EMAIL | SMS | PUSH | IN_APP

datatype NotificationStatus = PENDING | SENT | FAILED

text \<open>
  A thrown \<^verbatim>\<open>Error\<close>: the pipeline reads its \<^verbatim>\<open>message\<close> and rethrows the object.
\<close>

datatype Error = Error string


text \<open>\<^verbatim>\<open>UserCreatedEventDto\<close>; every field is declared a string.\<close>

record UserCreatedEventDto =
  userId :: string
  email :: string
  firstName :: string
  lastName :: string
  role :: string
  timestamp :: string





subsection \<open>\<^verbatim>\<open>isValidEmail\<close>\<close>









subsection \<open>\<^verbatim>\<open>EmailService\<close>\<close>




subsection \<open>\<^verbatim>\<open>NotificationService\<close>\<close>



















section \<open>User service (user-service/src/services/user.service.ts)\<close>

datatype UserRole = ADMIN | MANAGER | SALES_REP

text \<open>The string value of the enumeration, as it is written into events.\<close>

fun role_value :: "UserRole \<Rightarrow> string" where
  "role_value ADMIN = ''admin''"
| "role_value MANAGER = ''manager''"
| "role_value SALES_REP = ''sales_rep''"

text \<open>\<^verbatim>\<open>CreateUserDto\<close>; the class initialises \<^verbatim>\<open>role\<close> to \<^verbatim>\<open>sales_rep\<close>. The optional
  properties inherited from \<^verbatim>\<open>BaseDto\<close> are left out.\<close>

record CreateUserDto =
  cu_firstName :: string
  cu_lastName :: string
  cu_email :: string
  cu_password :: string
  cu_role :: UserRole

text \<open>
  Modelled from the spec: the \<^verbatim>\<open>User\<close> entity, whose file (\<^verbatim>\<open>entities/user.entity.ts\<close>)
  is not among the sources. The datastore creates and reads rows by primary key and
  by email; the columns are the fields of the DTO and those that
  \<^verbatim>\<open>createUser\<close> and \<^verbatim>\<open>mapToResponseDto\<close> read from a saved user. Dates are kept in
  the ISO form that \<^verbatim>\<open>toISOString\<close> returns.
\<close>

record User =
  u_id :: string
  u_firstName :: string
  u_lastName :: string
  u_email :: string
  u_password :: string
  u_role :: UserRole
  u_isActive :: bool
  u_createdAt :: string
  u_updatedAt :: string

record UserResponseDto =
  ur_id :: string
  ur_firstName :: string
  ur_lastName :: string
  ur_email :: string
  ur_role :: UserRole
  ur_isActive :: bool
  ur_createdAt :: string
  ur_updatedAt :: string

text \<open>What a use case of the service throws: a Nest HTTP exception with its
  message, or whatever a collaborator threw.\<close>

datatype service_error =
    ConflictException string
  | NotFoundException string
  | Thrown Error

text \<open>
  The state of the service: the rows of the user table and the events the Kafka
  client accepted, each with its topic, in order.
\<close>

record user_world =
  users :: "User list"
  emitted :: "(string \<times> UserCreatedEventDto) list"

text \<open>
  The collaborators: the columns the repository generates for a new row (or the
  message with which \<^verbatim>\<open>save\<close> rejects), whether \<^verbatim>\<open>kafkaClient.emit\<close> throws, and
  the clock read by \<^verbatim>\<open>new Date()\<close>.
\<close>

record generated_columns =
  g_id :: string
  g_isActive :: bool
  g_createdAt :: string
  g_updatedAt :: string

record user_env =
  userRepository_save :: "user_world \<Rightarrow> CreateUserDto \<Rightarrow> string + generated_columns"
  emit_throws :: "user_world \<Rightarrow> string \<Rightarrow> UserCreatedEventDto \<Rightarrow> string option"
  now :: string

definition KAFKA_TOPICS_USER_CREATED :: string where
  "KAFKA_TOPICS_USER_CREATED = ''user.created''"

definition user_mapToResponseDto :: "User \<Rightarrow> UserResponseDto" where
  "user_mapToResponseDto user =
     \<lparr> ur_id = u_id user, ur_firstName = u_firstName user, ur_lastName = u_lastName user,
       ur_email = u_email user, ur_role = u_role user, ur_isActive = u_isActive user,
       ur_createdAt = u_createdAt user, ur_updatedAt = u_updatedAt user \<rparr>"

text \<open>\<^verbatim>\<open>userRepository.create(dto)\<close> followed by \<^verbatim>\<open>save\<close>: the row that is stored.\<close>

definition stored_user :: "CreateUserDto \<Rightarrow> generated_columns \<Rightarrow> User" where
  "stored_user dto g =
     \<lparr> u_id = g_id g, u_firstName = cu_firstName dto, u_lastName = cu_lastName dto,
       u_email = cu_email dto, u_password = cu_password dto, u_role = cu_role dto,
       u_isActive = g_isActive g, u_createdAt = g_createdAt g, u_updatedAt = g_updatedAt g \<rparr>"

definition user_created_event :: "user_env \<Rightarrow> User \<Rightarrow> UserCreatedEventDto" where
  "user_created_event env savedUser =
     \<lparr> userId = u_id savedUser, email = u_email savedUser, firstName = u_firstName savedUser,
       lastName = u_lastName savedUser, role = role_value (u_role savedUser),
       timestamp = now env \<rparr>"

text \<open>
  The \<^verbatim>\<open>try\<close>/\<^verbatim>\<open>catch\<close> around \<^verbatim>\<open>kafkaClient.emit\<close>: an accepted event is appended
  to the emitted ones; when \<^verbatim>\<open>emit\<close> throws, the \<^verbatim>\<open>catch\<close> block logs and the state
  is left as it was.
\<close>

definition emit_user_created :: "user_env \<Rightarrow> UserCreatedEventDto \<Rightarrow> user_world \<Rightarrow> user_world" where
  "emit_user_created env event w =
     (case emit_throws env w KAFKA_TOPICS_USER_CREATED event of
        None \<Rightarrow> w\<lparr> emitted := emitted w @ [(KAFKA_TOPICS_USER_CREATED, event)] \<rparr>
      | Some m \<Rightarrow> w)"

definition createUser ::
  "user_env \<Rightarrow> CreateUserDto \<Rightarrow> user_world \<Rightarrow> (service_error + UserResponseDto) \<times> user_world" where
  "createUser env createUserDto w =
     (case find (\<lambda>u. u_email u = cu_email createUserDto) (users w) of
        Some existingUser \<Rightarrow>
          (Inl (ConflictException ''User with this email already exists''), w)
      | None \<Rightarrow>
          (case userRepository_save env w createUserDto of
             Inl m \<Rightarrow> (Inl (Thrown (Error m)), w)
           | Inr g \<Rightarrow>
               (let savedUser = stored_user createUserDto g;
                    w1 = w\<lparr> users := users w @ [savedUser] \<rparr>;
                    event = user_created_event env savedUser;
                    w2 = emit_user_created env event w1
                in (Inr (user_mapToResponseDto savedUser), w2))))"

text \<open>A broker that refuses every event, a repository that accepts, and a request.\<close>

definition broker_down :: user_env where
  "broker_down =
     \<lparr> userRepository_save =
         (\<lambda>w dto. Inr \<lparr> g_id = ''7f1c'', g_isActive = True,
                         g_createdAt = ''2024-05-01T10:00:00.000Z'',
                         g_updatedAt = ''2024-05-01T10:00:00.000Z'' \<rparr>),
       emit_throws = (\<lambda>w topic event. Some ''The client is closed''),
       now = ''2024-05-01T10:00:00.100Z'' \<rparr>"

definition jane_dto :: CreateUserDto where
  "jane_dto = \<lparr> cu_firstName = ''Jane'', cu_lastName = ''Roe'', cu_email = ''jane@example.com'',
                cu_password = ''secret1'', cu_role = SALES_REP \<rparr>"

definition no_users :: user_world where
  "no_users = \<lparr> users = [], emitted = [] \<rparr>"

section \<open>Lead service (lead-service/src/services/lead.service.ts)\<close>

datatype LeadStatus =
  NEW | CONTACTED | QUALIFIED | PROPOSAL | NEGOTIATION | CLOSED_WON | CLOSED_LOST

datatype LeadSource =
  WEBSITE | REFERRAL | SOCIAL_MEDIA | EMAIL_CAMPAIGN | PHONE_CALL | OTHER

text \<open>The \<^verbatim>\<open>Lead\<close> entity; nullable columns are options, dates are in ISO form.\<close>

record Lead =
  l_id :: string
  l_firstName :: string
  l_lastName :: string
  l_email :: string
  l_phone :: "string option"
  l_company :: "string option"
  l_position :: "string option"
  l_notes :: "string option"
  l_status :: LeadStatus
  l_source :: LeadSource
  l_assignedUserId :: "string option"
  l_createdAt :: string
  l_updatedAt :: string

text \<open>\<^verbatim>\<open>UpdateLeadDto\<close>: every property is optional, \<open>None\<close> when absent. The three
  optional properties inherited from \<^verbatim>\<open>BaseDto\<close> play no part in the events and are
  left out.\<close>

record UpdateLeadDto =
  ul_firstName :: "string option"
  ul_lastName :: "string option"
  ul_email :: "string option"
  ul_phone :: "string option"
  ul_company :: "string option"
  ul_position :: "string option"
  ul_notes :: "string option"
  ul_status :: "LeadStatus option"
  ul_source :: "LeadSource option"
  ul_assignedUserId :: "string option"

text \<open>
  The events of \<^verbatim>\<open>kafka-config.ts\<close> that the three operations publish, fields in
  the order of the interfaces:
  \<^item> \<open>LeadUpdatedEvent leadId firstName lastName email status timestamp\<close>,
  \<^item> \<open>LeadStatusChangedEvent leadId previousStatus newStatus userId timestamp\<close>,
  \<^item> \<open>LeadAssignedEvent leadId previousUserId newUserId timestamp\<close>.
\<close>

datatype lead_event =
    LeadUpdatedEvent string "string option" "string option" "string option"
      "LeadStatus option" string
  | LeadStatusChangedEvent string LeadStatus LeadStatus string string
  | LeadAssignedEvent string "string option" string string

definition KAFKA_TOPICS_LEAD_UPDATED :: string where
  "KAFKA_TOPICS_LEAD_UPDATED = ''lead.updated''"

definition KAFKA_TOPICS_LEAD_ASSIGNED :: string where
  "KAFKA_TOPICS_LEAD_ASSIGNED = ''lead.assigned''"

definition KAFKA_TOPICS_LEAD_STATUS_CHANGED :: string where
  "KAFKA_TOPICS_LEAD_STATUS_CHANGED = ''lead.status_changed''"

record assigned_user =
  au_id :: string
  au_firstName :: string
  au_lastName :: string
  au_email :: string

record LeadResponseDto =
  lr_id :: string
  lr_firstName :: string
  lr_lastName :: string
  lr_email :: string
  lr_phone :: "string option"
  lr_company :: "string option"
  lr_position :: "string option"
  lr_notes :: "string option"
  lr_status :: LeadStatus
  lr_source :: LeadSource
  lr_assignedUserId :: "string option"
  lr_assignedUser :: "assigned_user option"
  lr_createdAt :: string
  lr_updatedAt :: string

text \<open>
  The state of the service: the rows of the lead table and the events the Kafka
  client accepted, each with its topic, in the order of emission.
\<close>

record lead_world =
  leads :: "Lead list"
  lead_emitted :: "(string \<times> lead_event) list"

text \<open>
  The collaborators: whether \<^verbatim>\<open>leadRepository.save\<close> rejects, whether
  \<^verbatim>\<open>kafkaClient.emit\<close> throws, what \<^verbatim>\<open>userSdkService.getUserById\<close> yields (\<open>Inl\<close>
  the message of its failure), and the clock, which also stamps \<^verbatim>\<open>updatedAt\<close>
  when a row is saved.
\<close>

record lead_env =
  lead_save_rejects :: "lead_world \<Rightarrow> Lead \<Rightarrow> string option"
  lead_emit_throws :: "lead_world \<Rightarrow> string \<Rightarrow> lead_event \<Rightarrow> string option"
  getUserById :: "string \<Rightarrow> string + UserResponseDto"
  lead_now :: string

text \<open>Truthiness of an optional string: present and not empty.\<close>

fun truthy_string :: "string option \<Rightarrow> bool" where
  "truthy_string None = False"
| "truthy_string (Some s) = (s \<noteq> [])"

text \<open>\<^verbatim>\<open>kafkaClient.emit(topic, event)\<close>, outside any \<^verbatim>\<open>try\<close>: a throw leaves the
  operation.\<close>

definition lead_emit ::
  "lead_env \<Rightarrow> string \<Rightarrow> lead_event \<Rightarrow> lead_world \<Rightarrow> (service_error + unit) \<times> lead_world" where
  "lead_emit env topic event w =
     (case lead_emit_throws env w topic event of
        None \<Rightarrow> (Inr (), w\<lparr> lead_emitted := lead_emitted w @ [(topic, event)] \<rparr>)
      | Some m \<Rightarrow> (Inl (Thrown (Error m)), w))"

text \<open>\<^verbatim>\<open>leadRepository.save(lead)\<close> of a loaded row: the row with that key is
  replaced.\<close>

definition lead_save ::
  "lead_env \<Rightarrow> Lead \<Rightarrow> lead_world \<Rightarrow> (service_error + Lead) \<times> lead_world" where
  "lead_save env lead w =
     (case lead_save_rejects env w lead of
        Some m \<Rightarrow> (Inl (Thrown (Error m)), w)
      | None \<Rightarrow>
          (let updatedLead = lead\<lparr> l_updatedAt := lead_now env \<rparr>
           in (Inr updatedLead,
               w\<lparr> leads := map (\<lambda>l. if l_id l = l_id updatedLead then updatedLead else l)
                                (leads w) \<rparr>)))"

text \<open>\<^verbatim>\<open>Object.assign(lead, updateLeadDto)\<close>: each property present in the DTO
  overwrites the column.\<close>

definition assign_dto :: "Lead \<Rightarrow> UpdateLeadDto \<Rightarrow> Lead" where
  "assign_dto lead dto =
     lead\<lparr> l_firstName := (case ul_firstName dto of None \<Rightarrow> l_firstName lead | Some v \<Rightarrow> v),
           l_lastName := (case ul_lastName dto of None \<Rightarrow> l_lastName lead | Some v \<Rightarrow> v),
           l_email := (case ul_email dto of None \<Rightarrow> l_email lead | Some v \<Rightarrow> v),
           l_phone := (case ul_phone dto of None \<Rightarrow> l_phone lead | Some v \<Rightarrow> Some v),
           l_company := (case ul_company dto of None \<Rightarrow> l_company lead | Some v \<Rightarrow> Some v),
           l_position := (case ul_position dto of None \<Rightarrow> l_position lead | Some v \<Rightarrow> Some v),
           l_notes := (case ul_notes dto of None \<Rightarrow> l_notes lead | Some v \<Rightarrow> Some v),
           l_status := (case ul_status dto of None \<Rightarrow> l_status lead | Some v \<Rightarrow> v),
           l_source := (case ul_source dto of None \<Rightarrow> l_source lead | Some v \<Rightarrow> v),
           l_assignedUserId :=
             (case ul_assignedUserId dto of None \<Rightarrow> l_assignedUserId lead | Some v \<Rightarrow> Some v) \<rparr>"

text \<open>\<^verbatim>\<open>mapToResponseDto\<close>: the assigned user is looked up through the SDK and a
  failure of the lookup is swallowed.\<close>

definition lead_mapToResponseDto :: "lead_env \<Rightarrow> Lead \<Rightarrow> LeadResponseDto" where
  "lead_mapToResponseDto env lead =
     (let assignedUser =
            (if truthy_string (l_assignedUserId lead)
             then (case getUserById env (the (l_assignedUserId lead)) of
                     Inr u \<Rightarrow> Some u
                   | Inl m \<Rightarrow> None)
             else None)
      in \<lparr> lr_id = l_id lead, lr_firstName = l_firstName lead, lr_lastName = l_lastName lead,
           lr_email = l_email lead, lr_phone = l_phone lead, lr_company = l_company lead,
           lr_position = l_position lead, lr_notes = l_notes lead, lr_status = l_status lead,
           lr_source = l_source lead, lr_assignedUserId = l_assignedUserId lead,
           lr_assignedUser =
             (case assignedUser of
                None \<Rightarrow> None
              | Some u \<Rightarrow>
                  if ur_id u \<noteq> []
                  then Some \<lparr> au_id = ur_id u, au_firstName = ur_firstName u,
                              au_lastName = ur_lastName u, au_email = ur_email u \<rparr>
                  else None),
           lr_createdAt = l_createdAt lead, lr_updatedAt = l_updatedAt lead \<rparr>)"

text \<open>The two conditional emissions at the end of \<^verbatim>\<open>updateLead\<close>.\<close>

definition emit_status_if_changed ::
  "lead_env \<Rightarrow> Lead \<Rightarrow> UpdateLeadDto \<Rightarrow> LeadStatus \<Rightarrow> lead_world
     \<Rightarrow> (service_error + unit) \<times> lead_world" where
  "emit_status_if_changed env updatedLead dto previousStatus w =
     (case ul_status dto of
        None \<Rightarrow> (Inr (), w)
      | Some st \<Rightarrow>
          if st \<noteq> previousStatus
          then lead_emit env KAFKA_TOPICS_LEAD_STATUS_CHANGED
                 (LeadStatusChangedEvent (l_id updatedLead) previousStatus st ''system''
                    (lead_now env)) w
          else (Inr (), w))"

definition emit_assigned_if_changed ::
  "lead_env \<Rightarrow> Lead \<Rightarrow> UpdateLeadDto \<Rightarrow> string option \<Rightarrow> lead_world
     \<Rightarrow> (service_error + unit) \<times> lead_world" where
  "emit_assigned_if_changed env updatedLead dto previousUserId w =
     (if truthy_string (ul_assignedUserId dto) \<and> ul_assignedUserId dto \<noteq> previousUserId
      then lead_emit env KAFKA_TOPICS_LEAD_ASSIGNED
             (LeadAssignedEvent (l_id updatedLead) previousUserId
                (the (ul_assignedUserId dto)) (lead_now env)) w
      else (Inr (), w))"

definition updateLead ::
  "lead_env \<Rightarrow> string \<Rightarrow> UpdateLeadDto \<Rightarrow> lead_world
     \<Rightarrow> (service_error + LeadResponseDto) \<times> lead_world" where
  "updateLead env ident updateLeadDto w =
     (case find (\<lambda>l. l_id l = ident) (leads w) of
        None \<Rightarrow> (Inl (NotFoundException ''Lead not found''), w)
      | Some lead \<Rightarrow>
          (let previousStatus = l_status lead;
               previousUserId = l_assignedUserId lead
           in case lead_save env (assign_dto lead updateLeadDto) w of
                (Inl e, w1) \<Rightarrow> (Inl e, w1)
              | (Inr updatedLead, w1) \<Rightarrow>
                  (case lead_emit env KAFKA_TOPICS_LEAD_UPDATED
                          (LeadUpdatedEvent (l_id updatedLead) (ul_firstName updateLeadDto)
                             (ul_lastName updateLeadDto) (ul_email updateLeadDto)
                             (ul_status updateLeadDto) (lead_now env)) w1 of
                     (Inl e, w2) \<Rightarrow> (Inl e, w2)
                   | (Inr u, w2) \<Rightarrow>
                       (case emit_status_if_changed env updatedLead updateLeadDto
                               previousStatus w2 of
                          (Inl e, w3) \<Rightarrow> (Inl e, w3)
                        | (Inr u3, w3) \<Rightarrow>
                            (case emit_assigned_if_changed env updatedLead updateLeadDto
                                    previousUserId w3 of
                               (Inl e, w4) \<Rightarrow> (Inl e, w4)
                             | (Inr u4, w4) \<Rightarrow>
                                 (Inr (lead_mapToResponseDto env updatedLead), w4))))))"

definition assignLead ::
  "lead_env \<Rightarrow> string \<Rightarrow> string \<Rightarrow> lead_world
     \<Rightarrow> (service_error + LeadResponseDto) \<times> lead_world" where
  "assignLead env leadId uid w =
     (case find (\<lambda>l. l_id l = leadId) (leads w) of
        None \<Rightarrow> (Inl (NotFoundException ''Lead not found''), w)
      | Some lead \<Rightarrow>
          (case getUserById env uid of
             Inl m \<Rightarrow> (Inl (NotFoundException ''User not found''), w)
           | Inr u \<Rightarrow>
               (let previousUserId = l_assignedUserId lead
                in case lead_save env (lead\<lparr> l_assignedUserId := Some uid \<rparr>) w of
                     (Inl e, w1) \<Rightarrow> (Inl e, w1)
                   | (Inr updatedLead, w1) \<Rightarrow>
                       (case lead_emit env KAFKA_TOPICS_LEAD_ASSIGNED
                               (LeadAssignedEvent (l_id updatedLead) previousUserId uid
                                  (lead_now env)) w1 of
                          (Inl e, w2) \<Rightarrow> (Inl e, w2)
                        | (Inr u2, w2) \<Rightarrow>
                            (Inr (lead_mapToResponseDto env updatedLead), w2)))))"

definition updateLeadStatus ::
  "lead_env \<Rightarrow> string \<Rightarrow> LeadStatus \<Rightarrow> lead_world
     \<Rightarrow> (service_error + LeadResponseDto) \<times> lead_world" where
  "updateLeadStatus env leadId st w =
     (case find (\<lambda>l. l_id l = leadId) (leads w) of
        None \<Rightarrow> (Inl (NotFoundException ''Lead not found''), w)
      | Some lead \<Rightarrow>
          (let previousStatus = l_status lead
           in case lead_save env (lead\<lparr> l_status := st \<rparr>) w of
                (Inl e, w1) \<Rightarrow> (Inl e, w1)
              | (Inr updatedLead, w1) \<Rightarrow>
                  (case lead_emit env KAFKA_TOPICS_LEAD_STATUS_CHANGED
                          (LeadStatusChangedEvent (l_id updatedLead) previousStatus st
                             ''system'' (lead_now env)) w1 of
                     (Inl e, w2) \<Rightarrow> (Inl e, w2)
                   | (Inr u2, w2) \<Rightarrow>
                       (Inr (lead_mapToResponseDto env updatedLead), w2))))"

text \<open>A lead that is new and assigned to user \<^verbatim>\<open>u7\<close>, in a service whose
  collaborators all answer.\<close>

definition acme_lead :: Lead where
  "acme_lead =
     \<lparr> l_id = ''L1'', l_firstName = ''Alice'', l_lastName = ''Johnson'',
       l_email = ''alice@company.com'', l_phone = None, l_company = Some ''Tech Corp'',
       l_position = None, l_notes = None, l_status = NEW, l_source = WEBSITE,
       l_assignedUserId = Some ''u7'', l_createdAt = ''2024-05-01T10:00:00.000Z'',
       l_updatedAt = ''2024-05-01T10:00:00.000Z'' \<rparr>"

definition one_lead :: lead_world where
  "one_lead = \<lparr> leads = [acme_lead], lead_emitted = [] \<rparr>"

definition lead_all_ok :: lead_env where
  "lead_all_ok =
     \<lparr> lead_save_rejects = (\<lambda>w l. None),
       lead_emit_throws = (\<lambda>w topic event. None),
       getUserById =
         (\<lambda>uid. Inr \<lparr> ur_id = uid, ur_firstName = ''Sam'', ur_lastName = ''Lee'',
                       ur_email = ''sam@example.com'', ur_role = SALES_REP, ur_isActive = True,
                       ur_createdAt = ''2024-01-01T00:00:00.000Z'',
                       ur_updatedAt = ''2024-01-01T00:00:00.000Z'' \<rparr>),
       lead_now = ''2024-06-01T12:00:00.000Z'' \<rparr>"

definition no_change :: UpdateLeadDto where
  "no_change =
     \<lparr> ul_firstName = None, ul_lastName = None, ul_email = None, ul_phone = None,
       ul_company = None, ul_position = None, ul_notes = None, ul_status = Some NEW,
       ul_source = None, ul_assignedUserId = Some ''u7'' \<rparr>"

text \<open>
  What \<^verbatim>\<open>updateLead\<close> promises of the events it adds: a status-changed event
  carries the previous status and a new one that differs from it, an assigned
  event the previous assignee and a new one that differs from it.
\<close>

definition derived_on_change :: "Lead \<Rightarrow> UpdateLeadDto \<Rightarrow> string \<times> lead_event \<Rightarrow> bool" where
  "derived_on_change lead dto te =
     (case snd te of
        LeadStatusChangedEvent lid prev st uid ts \<Rightarrow>
          prev = l_status lead \<and> ul_status dto = Some st \<and> st \<noteq> l_status lead
      | LeadAssignedEvent lid prev new ts \<Rightarrow>
          prev = l_assignedUserId lead \<and> ul_assignedUserId dto = Some new
          \<and> Some new \<noteq> l_assignedUserId lead
      | LeadUpdatedEvent lid f l e st ts \<Rightarrow> True)"

text \<open>The emitted events of \<open>w'\<close> are those of \<open>w\<close> followed by events that all
  satisfy \<open>P\<close>.\<close>

definition extends_by ::
  "(string \<times> lead_event \<Rightarrow> bool) \<Rightarrow> lead_world \<Rightarrow> lead_world \<Rightarrow> bool" where
  "extends_by P w w' \<longleftrightarrow>
     (\<exists>xs. lead_emitted w' = lead_emitted w @ xs \<and> list_all P xs)"

section \<open>Gateway (api-gateway) and the SDK services (libs/sdk)\<close>

text \<open>
  \<^verbatim>\<open>GatewayService\<close> reaches the sources inside \<^verbatim>\<open>api-gateway/src/app.module.ts\<close>,
  \<^verbatim>\<open>UserSdkService\<close> as an unnamed part. The string operations of the router:
  \<^verbatim>\<open>startsWith\<close>, \<^verbatim>\<open>includes\<close>, and \<^verbatim>\<open>replace\<close> with a string pattern, which replaces
  the first occurrence only.
\<close>

definition startsWith :: "string \<Rightarrow> string \<Rightarrow> bool" where
  "startsWith s p \<longleftrightarrow> take (length p) s = p"

fun js_includes :: "string \<Rightarrow> string \<Rightarrow> bool" where
  "js_includes [] p = (p = [])"
| "js_includes (x # xs) p = (startsWith (x # xs) p \<or> js_includes xs p)"

fun js_replace :: "string \<Rightarrow> string \<Rightarrow> string \<Rightarrow> string" where
  "js_replace [] p r = (if p = [] then r else [])"
| "js_replace (x # xs) p r =
     (if startsWith (x # xs) p then r @ drop (length p) (x # xs)
      else x # js_replace xs p r)"

text \<open>
  A call of the resilient client: the verb, the URL relative to the base URL,
  the body and the Axios request configuration (\<open>JUndefined\<close> when the SDK passes
  none).
\<close>

record request =
  r_method :: string
  r_url :: string
  r_body :: jsvalue
  r_config :: jsvalue

subsection \<open>\<^verbatim>\<open>UserSdkService\<close>\<close>

definition UserSdk_createUser :: "jsvalue \<Rightarrow> request" where
  "UserSdk_createUser createUserDto =
     \<lparr> r_method = ''POST'', r_url = ''/users'', r_body = createUserDto, r_config = JUndefined \<rparr>"

definition UserSdk_getUserById :: "string \<Rightarrow> jsvalue \<Rightarrow> request" where
  "UserSdk_getUserById ident hdrs =
     \<lparr> r_method = ''GET'', r_url = ''/users/'' @ ident, r_body = JUndefined,
       r_config = JObject [(''headers'', hdrs)] \<rparr>"

definition UserSdk_getUserByEmail :: "string \<Rightarrow> jsvalue \<Rightarrow> request" where
  "UserSdk_getUserByEmail em hdrs =
     \<lparr> r_method = ''GET'', r_url = ''/users/email/'' @ em, r_body = JUndefined,
       r_config = JObject [(''headers'', hdrs)] \<rparr>"

definition UserSdk_updateUser :: "string \<Rightarrow> jsvalue \<Rightarrow> request" where
  "UserSdk_updateUser ident updateUserDto =
     \<lparr> r_method = ''PATCH'', r_url = ''/users/'' @ ident, r_body = updateUserDto,
       r_config = JUndefined \<rparr>"

definition UserSdk_deleteUser :: "string \<Rightarrow> request" where
  "UserSdk_deleteUser ident =
     \<lparr> r_method = ''DELETE'', r_url = ''/users/'' @ ident, r_body = JUndefined,
       r_config = JUndefined \<rparr>"

definition UserSdk_getAllUsers :: "jsvalue \<Rightarrow> request" where
  "UserSdk_getAllUsers hdrs =
     \<lparr> r_method = ''GET'', r_url = ''/users'', r_body = JUndefined,
       r_config = JObject [(''headers'', hdrs)] \<rparr>"

definition UserSdk_login :: "jsvalue \<Rightarrow> request" where
  "UserSdk_login loginDto =
     \<lparr> r_method = ''POST'', r_url = ''/auth/login'', r_body = loginDto, r_config = JUndefined \<rparr>"

definition UserSdk_validateToken :: "string \<Rightarrow> request" where
  "UserSdk_validateToken token =
     \<lparr> r_method = ''GET'', r_url = ''/auth/validate'', r_body = JUndefined,
       r_config = JObject [(''headers'', JObject [(''Authorization'', JString (''Bearer '' @ token))])] \<rparr>"

definition UserSdk_refreshToken :: "jsvalue \<Rightarrow> request" where
  "UserSdk_refreshToken refreshToken =
     \<lparr> r_method = ''POST'', r_url = ''/auth/refresh'',
       r_body = JObject [(''refreshToken'', refreshToken)], r_config = JUndefined \<rparr>"

subsection \<open>\<^verbatim>\<open>LeadSdkService\<close>\<close>

definition LeadSdk_createLead :: "jsvalue \<Rightarrow> request" where
  "LeadSdk_createLead createLeadDto =
     \<lparr> r_method = ''POST'', r_url = ''/leads'', r_body = createLeadDto, r_config = JUndefined \<rparr>"

definition LeadSdk_getLeadById :: "string \<Rightarrow> request" where
  "LeadSdk_getLeadById ident =
     \<lparr> r_method = ''GET'', r_url = ''/leads/'' @ ident, r_body = JUndefined,
       r_config = JUndefined \<rparr>"

definition LeadSdk_updateLead :: "string \<Rightarrow> jsvalue \<Rightarrow> request" where
  "LeadSdk_updateLead ident updateLeadDto =
     \<lparr> r_method = ''PATCH'', r_url = ''/leads/'' @ ident, r_body = updateLeadDto,
       r_config = JUndefined \<rparr>"

definition LeadSdk_deleteLead :: "string \<Rightarrow> request" where
  "LeadSdk_deleteLead ident =
     \<lparr> r_method = ''DELETE'', r_url = ''/leads/'' @ ident, r_body = JUndefined,
       r_config = JUndefined \<rparr>"

definition LeadSdk_getAllLeads :: request where
  "LeadSdk_getAllLeads =
     \<lparr> r_method = ''GET'', r_url = ''/leads'', r_body = JUndefined, r_config = JUndefined \<rparr>"

definition LeadSdk_getLeadsByUserId :: "string \<Rightarrow> request" where
  "LeadSdk_getLeadsByUserId uid =
     \<lparr> r_method = ''GET'', r_url = ''/leads/user/'' @ uid, r_body = JUndefined,
       r_config = JUndefined \<rparr>"

definition LeadSdk_assignLead :: "string \<Rightarrow> jsvalue \<Rightarrow> request" where
  "LeadSdk_assignLead leadId uid =
     \<lparr> r_method = ''PATCH'', r_url = ''/leads/'' @ leadId @ ''/assign'',
       r_body = JObject [(''assignedUserId'', uid)], r_config = JUndefined \<rparr>"

definition LeadSdk_updateLeadStatus :: "string \<Rightarrow> jsvalue \<Rightarrow> request" where
  "LeadSdk_updateLeadStatus leadId st =
     \<lparr> r_method = ''PATCH'', r_url = ''/leads/'' @ leadId @ ''/status'',
       r_body = JObject [(''status'', st)], r_config = JUndefined \<rparr>"

subsection \<open>\<^verbatim>\<open>GatewayService\<close> and \<^verbatim>\<open>GatewayController\<close>\<close>

text \<open>
  What a route does: answer by itself, return the promise of an SDK call
  (\<open>Forward\<close> the request that call makes), or throw an \<^verbatim>\<open>HttpException\<close> with a
  message and a status. An exception thrown inside the \<^verbatim>\<open>try\<close> block is rethrown by
  the \<^verbatim>\<open>catch\<close> block with its message and its status, or 500 when it has none.
\<close>

datatype route_result = Respond jsvalue | Forward request | Reject string nat

text \<open>Reading a property of the body: of \<^verbatim>\<open>undefined\<close> it is a \<^verbatim>\<open>TypeError\<close>, which
  the \<^verbatim>\<open>catch\<close> block turns into a 500 (the message is the one of V8).\<close>

definition body_prop :: "jsvalue \<Rightarrow> string \<Rightarrow> (jsvalue \<Rightarrow> request) \<Rightarrow> route_result" where
  "body_prop body k sdk =
     (case body of
        JUndefined \<Rightarrow>
          Reject (''Cannot read properties of undefined (reading '' @ [CHR 0x27] @ k
                    @ [CHR 0x27] @ '')'') 500
      | _ \<Rightarrow> Forward (sdk (getProp body k)))"

definition routeToUserService :: "string \<Rightarrow> string \<Rightarrow> jsvalue \<Rightarrow> jsvalue \<Rightarrow> route_result" where
  "routeToUserService method path body hdrs =
     (let authHeader = getProp hdrs ''authorization'';
          config = (if truthy authHeader
                    then JObject [(''headers'', JObject [(''Authorization'', authHeader)])]
                    else JUndefined)
      in if method = ''GET'' then
           (if path = ''/auth/validate''
            then Respond (JObject [(''message'', JString ''Token is valid'')])
            else if startsWith path ''/email/''
            then Forward (UserSdk_getUserByEmail (js_replace path ''/email/'' []) config)
            else if path = ''/''
            then Forward (UserSdk_getAllUsers config)
            else Forward (UserSdk_getUserById (js_replace path ''/'' []) config))
         else if method = ''POST'' then
           (if path = ''/auth/login'' then Forward (UserSdk_login body)
            else if path = ''/auth/refresh''
            then body_prop body ''refreshToken'' UserSdk_refreshToken
            else Forward (UserSdk_createUser body))
         else if method = ''PATCH''
         then Forward (UserSdk_updateUser (js_replace path ''/'' []) body)
         else if method = ''DELETE''
         then Forward (UserSdk_deleteUser (js_replace path ''/'' []))
         else Reject ''Method not allowed'' 405)"

definition routeToLeadService :: "string \<Rightarrow> string \<Rightarrow> jsvalue \<Rightarrow> route_result" where
  "routeToLeadService method path body =
     (if method = ''GET'' then
        (if startsWith path ''/user/''
         then Forward (LeadSdk_getLeadsByUserId (js_replace path ''/user/'' []))
         else if path = ''/''
         then Forward LeadSdk_getAllLeads
         else Forward (LeadSdk_getLeadById (js_replace path ''/'' [])))
      else if method = ''POST'' then Forward (LeadSdk_createLead body)
      else if method = ''PATCH'' then
        (if js_includes path ''/assign''
         then body_prop body ''assignedUserId''
                (LeadSdk_assignLead (js_replace (js_replace path ''/assign'' []) ''/'' []))
         else if js_includes path ''/status''
         then body_prop body ''status''
                (LeadSdk_updateLeadStatus (js_replace (js_replace path ''/status'' []) ''/'' []))
         else Forward (LeadSdk_updateLead (js_replace path ''/'' []) body))
      else if method = ''DELETE''
      then Forward (LeadSdk_deleteLead (js_replace path ''/'' []))
      else Reject ''Method not allowed'' 405)"

text \<open>The inbound request as the controller reads it: method, URL and headers
  (Node lower-cases header names).\<close>

record inbound =
  req_method :: string
  req_url :: string
  req_headers :: jsvalue

definition routeUserService :: "inbound \<Rightarrow> jsvalue \<Rightarrow> route_result" where
  "routeUserService req body =
     routeToUserService (req_method req) (js_replace (req_url req) ''/users'' []) body
       (req_headers req)"

definition routeLeadService :: "inbound \<Rightarrow> jsvalue \<Rightarrow> route_result" where
  "routeLeadService req body =
     routeToLeadService (req_method req) (js_replace (req_url req) ''/leads'' []) body"

text \<open>
  The \<^verbatim>\<open>Authorization\<close> header of the request an SDK call makes: Axios reads it
  at \<^verbatim>\<open>config.headers.Authorization\<close>.
\<close>

definition authorization_of :: "request \<Rightarrow> jsvalue" where
  "authorization_of rq = getProp (getProp (r_config rq) ''headers'') ''Authorization''"

text \<open>A caller with a bearer token.\<close>

definition bearer :: jsvalue where
  "bearer = JObject [(''authorization'', JString ''Bearer abc.def.ghi'')]"

definition request_to :: "string \<Rightarrow> string \<Rightarrow> inbound" where
  "request_to m u = \<lparr> req_method = m, req_url = u, req_headers = bearer \<rparr>"

section \<open>Properties of the resilient client\<close>

lemma shouldRetry_retryable:
  "no_response err \<or> server_error err \<Longrightarrow> shouldRetry err"
  by (auto simp: shouldRetry_def no_response_def server_error_def)

lemma attempts_retry_steps: "k \<le> m \<Longrightarrow> attempts (retry_steps this k m) = m - k + 1"
  by (induction m) (auto simp: retry_steps_def attempts_def Suc_diff_le)

lemma waits_append: "waits (xs @ ys) = waits xs @ waits ys"
  by (induction xs rule: waits.induct) auto

lemma waits_retry_steps:
  "k \<le> m \<Longrightarrow> waits (retry_steps this k m) = replicate (m - k) (c_retryDelay this)"
  by (induction m)
     (auto simp: retry_steps_def waits_append Suc_diff_le replicate_append_same)

lemma retry_steps_step:
  "k < m \<Longrightarrow> retry_steps this k m = Request k # Delay (c_retryDelay this) # retry_steps this (Suc k) m"
  by (simp add: retry_steps_def upt_conv_Cons)

lemma retry_steps_stop: "retry_steps this m m = [Request m]"
  by (simp add: retry_steps_def)

lemma retryRequest_Inr:
  "requestFn k = Inr resp \<Longrightarrow> retryRequest this requestFn k = ([Request k], Inr resp)"
  by (subst retryRequest.simps) simp

lemma retryRequest_stop:
  "requestFn k = Inl err \<Longrightarrow> \<not> (k < c_maxRetries this \<and> shouldRetry err) \<Longrightarrow>
   retryRequest this requestFn k = ([Request k], Inl err)"
  by (subst retryRequest.simps) auto

lemma retryRequest_retry:
  "requestFn k = Inl err \<Longrightarrow> k < c_maxRetries this \<Longrightarrow> shouldRetry err \<Longrightarrow>
   retryRequest this requestFn k =
     (Request k # Delay (c_retryDelay this) # fst (retryRequest this requestFn (Suc k)),
      snd (retryRequest this requestFn (Suc k)))"
  by (subst retryRequest.simps) (simp add: case_prod_beta)

lemma retryRequest_exhaust:
  assumes "\<forall>i. k \<le> i \<and> i \<le> c_maxRetries this \<longrightarrow> (\<exists>err. requestFn i = Inl err \<and> (no_response err \<or> server_error err))"
    and "k \<le> c_maxRetries this"
  shows "retryRequest this requestFn k =
           (retry_steps this k (c_maxRetries this), requestFn (c_maxRetries this))"
  using assms
proof (induction this requestFn k rule: retryRequest.induct)
  case (1 this requestFn retryCount)
  from "1.prems" obtain err where e: "requestFn retryCount = Inl err" "shouldRetry err"
    using shouldRetry_retryable by blast
  show ?case
  proof (cases "retryCount < c_maxRetries this")
    case True
    have "retryRequest this requestFn (retryCount + 1) =
            (retry_steps this (retryCount + 1) (c_maxRetries this), requestFn (c_maxRetries this))"
      using "1.IH"[OF e(1)] True e(2) "1.prems" by simp
    then show ?thesis
      using True e by (simp add: retryRequest_retry retry_steps_step)
  next
    case False
    then have "retryCount = c_maxRetries this" using "1.prems" by simp
    then show ?thesis
      using e by (simp add: retryRequest_stop retry_steps_stop)
  qed
qed

lemma retryRequest_recover:
  assumes "\<forall>i. k \<le> i \<and> i < n \<longrightarrow> (\<exists>err. requestFn i = Inl err \<and> shouldRetry err)"
    and "requestFn n = Inr resp" and "k \<le> n" and "n \<le> c_maxRetries this"
  shows "retryRequest this requestFn k = (retry_steps this k n, Inr resp)"
  using assms
proof (induction this requestFn k rule: retryRequest.induct)
  case (1 this requestFn retryCount)
  show ?case
  proof (cases "retryCount < n")
    case True
    with "1.prems" obtain err where e: "requestFn retryCount = Inl err" "shouldRetry err"
      by auto
    have lt: "retryCount < c_maxRetries this" using True "1.prems" by simp
    have "retryRequest this requestFn (retryCount + 1) = (retry_steps this (retryCount + 1) n, Inr resp)"
      using "1.IH"[OF e(1)] lt e(2) "1.prems" True by simp
    then show ?thesis
      using lt e True by (simp add: retryRequest_retry retry_steps_step)
  next
    case False
    then have "retryCount = n" using "1.prems" by simp
    then show ?thesis
      using "1.prems" by (simp add: retryRequest_Inr retry_steps_stop)
  qed
qed




lemma default_client_simps:
  "c_maxRetries default_client = 3" "c_retryDelay default_client = 1000"
  by (simp_all add: default_client_def new_HttpClient_def)

lemma Request_in_retry_steps:
  "k \<le> m \<Longrightarrow> Request i \<in> set (retry_steps this k m) \<longleftrightarrow> k \<le> i \<and> i \<le> m"
  by (auto simp: retry_steps_def)

lemma retryRequest_trace:
  "\<exists>m. retryCount \<le> m
       \<and> retryRequest this requestFn retryCount = (retry_steps this retryCount m, requestFn m)
       \<and> (\<forall>i. retryCount \<le> i \<and> i < m \<longrightarrow>
              i < c_maxRetries this \<and> (\<exists>e. requestFn i = Inl e \<and> shouldRetry e))
       \<and> (\<forall>e. requestFn m = Inl e \<longrightarrow> \<not> (m < c_maxRetries this \<and> shouldRetry e))"
proof (induction this requestFn retryCount rule: retryRequest.induct)
  case (1 this requestFn retryCount)
  show ?case
  proof (cases "requestFn retryCount")
    case (Inr resp)
    then have "retryRequest this requestFn retryCount
                 = (retry_steps this retryCount retryCount, requestFn retryCount)"
      by (simp add: retryRequest_Inr retry_steps_stop)
    then show ?thesis using Inr by (intro exI[of _ retryCount]) auto
  next
    case (Inl err)
    show ?thesis
    proof (cases "retryCount < c_maxRetries this \<and> shouldRetry err")
      case False
      then have "retryRequest this requestFn retryCount
                   = (retry_steps this retryCount retryCount, requestFn retryCount)"
        using Inl by (simp add: retryRequest_stop retry_steps_stop)
      then show ?thesis using Inl False by (intro exI[of _ retryCount]) auto
    next
      case True
      from "1.IH"[OF Inl True] obtain m where m:
        "retryCount + 1 \<le> m"
        "retryRequest this requestFn (retryCount + 1)
           = (retry_steps this (retryCount + 1) m, requestFn m)"
        "\<forall>i. retryCount + 1 \<le> i \<and> i < m \<longrightarrow>
              i < c_maxRetries this \<and> (\<exists>e. requestFn i = Inl e \<and> shouldRetry e)"
        "\<forall>e. requestFn m = Inl e \<longrightarrow> \<not> (m < c_maxRetries this \<and> shouldRetry e)"
        by blast
      have lt: "retryCount < m" using m(1) by simp
      have eq: "retryRequest this requestFn retryCount
                  = (retry_steps this retryCount m, requestFn m)"
        using Inl True m(2) lt by (simp add: retryRequest_retry retry_steps_step)
      have mid: "\<forall>i. retryCount \<le> i \<and> i < m \<longrightarrow>
              i < c_maxRetries this \<and> (\<exists>e. requestFn i = Inl e \<and> shouldRetry e)"
      proof (intro allI impI)
        fix i assume i: "retryCount \<le> i \<and> i < m"
        show "i < c_maxRetries this \<and> (\<exists>e. requestFn i = Inl e \<and> shouldRetry e)"
        proof (cases "i = retryCount")
          case True
          then show ?thesis using Inl \<open>retryCount < c_maxRetries this \<and> shouldRetry err\<close> by simp
        next
          case False
          then have "retryCount + 1 \<le> i \<and> i < m" using i by simp
          then show ?thesis using m(3) by blast
        qed
      qed
      show ?thesis
        using eq mid m(4) lt by (intro exI[of _ m]) simp
    qed
  qed
qed

lemma shouldRetry_shaped:
  "axios_shaped err \<Longrightarrow> shouldRetry err \<longleftrightarrow> no_response err \<or> server_error err"
  by (auto simp: axios_shaped_def shouldRetry_def no_response_def server_error_def)

text \<open>
  Claim C1. In every call, an attempt that fails with a received response whose
  status is outside 500-599 ends the call: the call throws that error and no
  further attempt is made, so when it is the first attempt exactly one attempt
  is made. An attempt is followed by another only when it failed without a
  response or with a status in 500-599. Both hold at every retry count, for
  the errors the Axios instance rejects with. The witness is a target answering
  503 and then 404: two attempts, the 404 thrown.
\<close>

theorem client_error_ends_call:
  assumes "\<forall>k err. requestFn k = Inl err \<longrightarrow> axios_shaped err"
  shows "(\<forall>k err. Request k \<in> set (fst (call this requestFn)) \<and> requestFn k = Inl err
                  \<and> response err \<noteq> None \<and> \<not> server_error err
            \<longrightarrow> snd (call this requestFn) = Inl err
                \<and> attempts (fst (call this requestFn)) = k + 1)
       \<and> (\<forall>err. requestFn 0 = Inl err \<and> response err \<noteq> None \<and> \<not> server_error err
            \<longrightarrow> call this requestFn = ([Request 0], Inl err))
       \<and> (\<forall>k. Request (Suc k) \<in> set (fst (call this requestFn))
            \<longrightarrow> (\<exists>err. requestFn k = Inl err \<and> (no_response err \<or> server_error err)))"
proof -
  obtain m where m:
    "retryRequest this requestFn 0 = (retry_steps this 0 m, requestFn m)"
    "\<forall>i. i < m \<longrightarrow> i < c_maxRetries this \<and> (\<exists>e. requestFn i = Inl e \<and> shouldRetry e)"
    using retryRequest_trace[of 0 this requestFn] by auto
  have tr: "fst (call this requestFn) = retry_steps this 0 m"
    using m(1) by (simp add: call_def)
  have stop: "k = m"
    if "Request k \<in> set (retry_steps this 0 m)" "requestFn k = Inl err"
       "response err \<noteq> None" "\<not> server_error err" for k err
  proof (rule ccontr)
    assume "k \<noteq> m"
    then have "k < m" using that(1) by (simp add: Request_in_retry_steps)
    then obtain e where "requestFn k = Inl e" "shouldRetry e" using m(2) by blast
    then have "shouldRetry err" using that(2) by simp
    moreover have "axios_shaped err" using assms that(2) by blast
    ultimately show False
      using that(3,4) by (simp add: shouldRetry_shaped no_response_def)
  qed
  have a: "snd (call this requestFn) = Inl err \<and> attempts (fst (call this requestFn)) = k + 1"
    if "Request k \<in> set (fst (call this requestFn))" "requestFn k = Inl err"
       "response err \<noteq> None" "\<not> server_error err" for k err
  proof -
    have "k = m" using stop that tr by simp
    then show ?thesis
      using m(1) that(2) by (simp add: call_def attempts_retry_steps)
  qed
  have b: "call this requestFn = ([Request 0], Inl err)"
    if "requestFn 0 = Inl err" "response err \<noteq> None" "\<not> server_error err" for err
  proof -
    have "Request 0 \<in> set (retry_steps this 0 m)" by (simp add: Request_in_retry_steps)
    then have "m = 0" using stop[of 0 err] that by simp
    then show ?thesis using m(1) that(1) by (simp add: call_def retry_steps_stop)
  qed
  have c: "\<exists>err. requestFn k = Inl err \<and> (no_response err \<or> server_error err)"
    if "Request (Suc k) \<in> set (fst (call this requestFn))" for k
  proof -
    have "k < m" using that tr by (simp add: Request_in_retry_steps)
    then obtain e where e: "requestFn k = Inl e" "shouldRetry e" using m(2) by blast
    moreover have "axios_shaped e" using assms e(1) by blast
    ultimately show ?thesis using shouldRetry_shaped by blast
  qed
  show ?thesis using a b c by blast
qed

theorem client_error_ends_call_witness:
  "snd (call default_client unavailable_then_missing)
     = Inl (status_error 404 (Some ''ERR_BAD_REQUEST''))
   \<and> attempts (fst (call default_client unavailable_then_missing)) = 2
   \<and> fst (call default_client unavailable_then_missing) = [Request 0, Delay 1000, Request 1]"
proof -
  have shaped: "\<forall>k err. unavailable_then_missing k = Inl err \<longrightarrow> axios_shaped err"
    by (auto simp: unavailable_then_missing_def axios_shaped_def status_error_def)
  have tr: "fst (call default_client unavailable_then_missing) = [Request 0, Delay 1000, Request 1]"
    by (simp add: call_def retryRequest.simps default_client_simps unavailable_then_missing_def
          status_error_def shouldRetry_def)
  have made: "Request 1 \<in> set (fst (call default_client unavailable_then_missing))"
    by (simp add: tr)
  have fails: "unavailable_then_missing 1 = Inl (status_error 404 (Some ''ERR_BAD_REQUEST''))
               \<and> response (status_error 404 (Some ''ERR_BAD_REQUEST'')) \<noteq> None
               \<and> \<not> server_error (status_error 404 (Some ''ERR_BAD_REQUEST''))"
    by (simp add: unavailable_then_missing_def status_error_def server_error_def)
  have "\<forall>k err. Request k \<in> set (fst (call default_client unavailable_then_missing))
                 \<and> unavailable_then_missing k = Inl err
                 \<and> response err \<noteq> None \<and> \<not> server_error err
            \<longrightarrow> snd (call default_client unavailable_then_missing) = Inl err
                \<and> attempts (fst (call default_client unavailable_then_missing)) = k + 1"
    using client_error_ends_call[OF shaped, of default_client] by blast
  then have "snd (call default_client unavailable_then_missing)
               = Inl (status_error 404 (Some ''ERR_BAD_REQUEST''))
             \<and> attempts (fst (call default_client unavailable_then_missing)) = 1 + 1"
    using made fails by blast
  then show ?thesis using tr by simp
qed

text \<open>
  The two code tests of \<^verbatim>\<open>shouldRetry\<close> are what the hypothesis on the errors is
  for: an error object carrying a 404 response together with the code
  \<^verbatim>\<open>ETIMEDOUT\<close>, which the Axios instance does not produce, would be retried until
  the budget of the default client is spent.
\<close>

lemma code_test_retries_despite_response:
  "response (status_error 404 (Some ''ETIMEDOUT'')) = Some \<lparr> status = 404, data = () \<rparr>
   \<and> \<not> axios_shaped (status_error 404 (Some ''ETIMEDOUT''))
   \<and> attempts (fst (call default_client (\<lambda>k. Inl (status_error 404 (Some ''ETIMEDOUT''))))) = 4"
  by (simp add: call_def retryRequest.simps default_client_simps status_error_def
        shouldRetry_def attempts_def axios_shaped_def)

text \<open>
  Claim C2. When every attempt fails with a retryable failure (no response, or a
  response with status 500-599), the call makes exactly \<open>maxRetries + 1\<close>
  attempts, waits the fixed \<open>retryDelay\<close> between consecutive attempts, and throws
  the error object of the final attempt itself.
\<close>

theorem exhausted_retries_keep_last_error:
  assumes "\<forall>i \<le> c_maxRetries this.
             \<exists>err. requestFn i = Inl err \<and> (no_response err \<or> server_error err)"
  shows "fst (call this requestFn) = retry_steps this 0 (c_maxRetries this)
       \<and> attempts (fst (call this requestFn)) = c_maxRetries this + 1
       \<and> waits (fst (call this requestFn)) = replicate (c_maxRetries this) (c_retryDelay this)
       \<and> (\<exists>err. requestFn (c_maxRetries this) = Inl err
                \<and> snd (call this requestFn) = Inl err)"
proof -
  have r: "retryRequest this requestFn 0 =
             (retry_steps this 0 (c_maxRetries this), requestFn (c_maxRetries this))"
    using retryRequest_exhaust[of 0 this requestFn] assms by simp
  obtain err where e: "requestFn (c_maxRetries this) = Inl err"
    using assms by blast
  show ?thesis
    using r e by (simp add: call_def attempts_retry_steps waits_retry_steps)
qed

theorem exhausted_retries_keep_last_error_witness:
  "fst (call default_client (\<lambda>k. Inl (status_error (500 + k) None)))
     = [Request 0, Delay 1000, Request 1, Delay 1000, Request 2, Delay 1000, Request 3]
   \<and> attempts (fst (call default_client (\<lambda>k. Inl (status_error (500 + k) None)))) = 4
   \<and> waits (fst (call default_client (\<lambda>k. Inl (status_error (500 + k) None)))) = [1000, 1000, 1000]
   \<and> snd (call default_client (\<lambda>k. Inl (status_error (500 + k) None)))
       = Inl (status_error 503 None)"
proof -
  have h: "\<forall>i \<le> c_maxRetries default_client.
             \<exists>err. (\<lambda>k. Inl (status_error (500 + k) None) :: unit attempt) i = Inl err
                   \<and> (no_response err \<or> server_error err)"
    by (simp add: default_client_simps status_error_def server_error_def)
  show ?thesis
    using exhausted_retries_keep_last_error[OF h]
    by (simp add: default_client_simps retry_steps_def upt_conv_Cons attempts_def
          numeral_3_eq_3 numeral_2_eq_2)
qed

text \<open>
  Claim C3. When the first \<open>n\<close> attempts fail with 5xx responses, \<open>n\<close> is at most
  \<open>maxRetries\<close>, and the next attempt resolves, the call returns the body of that
  response after \<open>n + 1\<close> attempts and \<open>n\<close> waits. The witness is the scenario of
  the specification: the default client (3 retries, 1000 ms), a target answering
  503 three times and then 200.
\<close>

theorem recovers_after_server_errors:
  assumes "n \<le> c_maxRetries this"
    and "\<forall>i < n. \<exists>err. requestFn i = Inl err \<and> server_error err"
    and "requestFn n = Inr resp"
  shows "call this requestFn = (retry_steps this 0 n, Inr (data resp))
       \<and> attempts (fst (call this requestFn)) = n + 1
       \<and> waits (fst (call this requestFn)) = replicate n (c_retryDelay this)"
proof -
  have "\<forall>i. 0 \<le> i \<and> i < n \<longrightarrow> (\<exists>err. requestFn i = Inl err \<and> shouldRetry err)"
    using assms(2) shouldRetry_retryable by blast
  then have "retryRequest this requestFn 0 = (retry_steps this 0 n, Inr resp)"
    using retryRequest_recover[of 0 n requestFn resp this] assms by simp
  then show ?thesis
    by (simp add: call_def attempts_retry_steps waits_retry_steps)
qed


theorem recovers_after_server_errors_witness:
  "call default_client flaky_target
     = ([Request 0, Delay 1000, Request 1, Delay 1000, Request 2, Delay 1000, Request 3],
        Inr ''ok'')
   \<and> attempts (fst (call default_client flaky_target)) = 4
   \<and> waits (fst (call default_client flaky_target)) = [1000, 1000, 1000]"
proof -
  have h1: "3 \<le> c_maxRetries default_client" by (simp add: default_client_simps)
  have h2: "\<forall>i < 3. \<exists>err. flaky_target i = Inl err \<and> server_error err"
    by (simp add: flaky_target_def server_error_def)
  have h3: "flaky_target 3 = Inr \<lparr> status = 200, data = ''ok'' \<rparr>"
    by (simp add: flaky_target_def)
  show ?thesis
    using recovers_after_server_errors[OF h1 h2 h3]
    by (simp add: default_client_simps retry_steps_def upt_conv_Cons attempts_def
          numeral_3_eq_3 numeral_2_eq_2)
qed

section \<open>Properties of the notification pipeline\<close>




























section \<open>Properties of the user service\<close>

text \<open>
  Claim C7. When no user has the email, the repository stores the new user, and
  \<^verbatim>\<open>kafkaClient.emit\<close> throws on the \<^verbatim>\<open>user.created\<close> event: \<^verbatim>\<open>createUser\<close> returns
  the response DTO of the saved user, and the state it leaves holds the saved
  row; nothing of the publish failure reaches the caller.
\<close>

theorem publish_failure_keeps_write:
  assumes "find (\<lambda>u. u_email u = cu_email dto) (users w) = None"
    and "userRepository_save env w dto = Inr g"
    and "emit_throws env (w\<lparr> users := users w @ [stored_user dto g] \<rparr>) KAFKA_TOPICS_USER_CREATED
           (user_created_event env (stored_user dto g)) = Some m"
  shows "createUser env dto w
           = (Inr (user_mapToResponseDto (stored_user dto g)),
              w\<lparr> users := users w @ [stored_user dto g] \<rparr>)"
  using assms by (simp add: createUser_def emit_user_created_def Let_def)

theorem publish_failure_keeps_write_witness:
  "createUser broker_down jane_dto no_users
     = (Inr \<lparr> ur_id = ''7f1c'', ur_firstName = ''Jane'', ur_lastName = ''Roe'',
              ur_email = ''jane@example.com'', ur_role = SALES_REP, ur_isActive = True,
              ur_createdAt = ''2024-05-01T10:00:00.000Z'',
              ur_updatedAt = ''2024-05-01T10:00:00.000Z'' \<rparr>,
        \<lparr> users = [\<lparr> u_id = ''7f1c'', u_firstName = ''Jane'', u_lastName = ''Roe'',
                      u_email = ''jane@example.com'', u_password = ''secret1'',
                      u_role = SALES_REP, u_isActive = True,
                      u_createdAt = ''2024-05-01T10:00:00.000Z'',
                      u_updatedAt = ''2024-05-01T10:00:00.000Z'' \<rparr>],
          emitted = [] \<rparr>)"
proof -
  have h1: "find (\<lambda>u. u_email u = cu_email jane_dto) (users no_users) = None"
    by (simp add: no_users_def)
  have h2: "userRepository_save broker_down no_users jane_dto
              = Inr \<lparr> g_id = ''7f1c'', g_isActive = True,
                      g_createdAt = ''2024-05-01T10:00:00.000Z'',
                      g_updatedAt = ''2024-05-01T10:00:00.000Z'' \<rparr>"
    by (simp add: broker_down_def)
  have h3: "emit_throws broker_down
              (no_users\<lparr> users := users no_users @ [stored_user jane_dto
                   \<lparr> g_id = ''7f1c'', g_isActive = True,
                     g_createdAt = ''2024-05-01T10:00:00.000Z'',
                     g_updatedAt = ''2024-05-01T10:00:00.000Z'' \<rparr>] \<rparr>)
              KAFKA_TOPICS_USER_CREATED
              (user_created_event broker_down (stored_user jane_dto
                   \<lparr> g_id = ''7f1c'', g_isActive = True,
                     g_createdAt = ''2024-05-01T10:00:00.000Z'',
                     g_updatedAt = ''2024-05-01T10:00:00.000Z'' \<rparr>))
            = Some ''The client is closed''"
    by (simp add: broker_down_def)
  show ?thesis
    using publish_failure_keeps_write[OF h1 h2 h3]
    by (simp add: stored_user_def user_mapToResponseDto_def jane_dto_def no_users_def)
qed

section \<open>Properties of the lead service\<close>

lemmas lead_defs =
  lead_emit_def lead_save_def emit_status_if_changed_def emit_assigned_if_changed_def
  KAFKA_TOPICS_LEAD_UPDATED_def KAFKA_TOPICS_LEAD_ASSIGNED_def
  KAFKA_TOPICS_LEAD_STATUS_CHANGED_def Let_def

lemma extends_by_refl: "extends_by P w w"
  by (simp add: extends_by_def)

lemma extends_by_trans: "extends_by P w w1 \<Longrightarrow> extends_by P w1 w2 \<Longrightarrow> extends_by P w w2"
  by (auto simp: extends_by_def)

lemma lead_save_extends: "extends_by P w (snd (lead_save env l w))"
  by (simp add: extends_by_def lead_save_def Let_def split: option.splits)

lemma lead_emit_extends: "P (t, e) \<Longrightarrow> extends_by P w (snd (lead_emit env t e w))"
  by (simp add: extends_by_def lead_emit_def split: option.splits)

lemma truthy_string_Some: "truthy_string x \<Longrightarrow> x = Some (the x)"
  by (cases x) auto

lemma emit_status_extends:
  "extends_by (derived_on_change lead dto) w
     (snd (emit_status_if_changed env ul dto (l_status lead) w))"
  by (auto simp: emit_status_if_changed_def extends_by_refl derived_on_change_def
        intro!: lead_emit_extends split: option.splits)

lemma emit_assigned_extends:
  "extends_by (derived_on_change lead dto) w
     (snd (emit_assigned_if_changed env ul dto (l_assignedUserId lead) w))"
  using truthy_string_Some[of "ul_assignedUserId dto"]
  by (auto simp: emit_assigned_if_changed_def extends_by_refl derived_on_change_def
        intro!: lead_emit_extends)

text \<open>
  \<^verbatim>\<open>updateLead\<close> does guard its derived events: every status-changed or assigned
  event it adds reports a new value different from the previous one.
\<close>

lemma updateLead_derived_events:
  assumes "find (\<lambda>l. l_id l = ident) (leads w) = Some lead"
  shows "extends_by (derived_on_change lead dto) w (snd (updateLead env ident dto w))"
proof -
  let ?P = "derived_on_change lead dto"
  obtain r1 w1 where s1: "lead_save env (assign_dto lead dto) w = (r1, w1)"
    by (cases "lead_save env (assign_dto lead dto) w")
  have e1: "extends_by ?P w w1"
    using lead_save_extends[of ?P w env "assign_dto lead dto"] s1 by simp
  show ?thesis
  proof (cases r1)
    case (Inl e)
    then show ?thesis using assms s1 e1 by (simp add: updateLead_def)
  next
    case (Inr updatedLead)
    let ?ev = "LeadUpdatedEvent (l_id updatedLead) (ul_firstName dto) (ul_lastName dto)
                 (ul_email dto) (ul_status dto) (lead_now env)"
    obtain r2 w2 where s2: "lead_emit env KAFKA_TOPICS_LEAD_UPDATED ?ev w1 = (r2, w2)"
      by (cases "lead_emit env KAFKA_TOPICS_LEAD_UPDATED ?ev w1")
    have "extends_by ?P w1 w2"
      using lead_emit_extends[of ?P KAFKA_TOPICS_LEAD_UPDATED ?ev w1 env] s2
      by (simp add: derived_on_change_def)
    with e1 have e2: "extends_by ?P w w2" by (rule extends_by_trans)
    show ?thesis
    proof (cases r2)
      case (Inl e)
      then show ?thesis using assms s1 s2 Inr e2 by (simp add: updateLead_def)
    next
      case r2: (Inr u)
      obtain r3 w3 where s3:
        "emit_status_if_changed env updatedLead dto (l_status lead) w2 = (r3, w3)"
        by (cases "emit_status_if_changed env updatedLead dto (l_status lead) w2")
      have "extends_by ?P w2 w3"
        using emit_status_extends[of lead dto w2 env updatedLead] s3 by simp
      with e2 have e3: "extends_by ?P w w3" by (rule extends_by_trans)
      show ?thesis
      proof (cases r3)
        case (Inl e)
        then show ?thesis using assms s1 s2 s3 Inr r2 e3 by (simp add: updateLead_def)
      next
        case r3: (Inr u3)
        obtain r4 w4 where s4:
          "emit_assigned_if_changed env updatedLead dto (l_assignedUserId lead) w3 = (r4, w4)"
          by (cases "emit_assigned_if_changed env updatedLead dto (l_assignedUserId lead) w3")
        have "extends_by ?P w3 w4"
          using emit_assigned_extends[of lead dto w3 env updatedLead] s4 by simp
        with e3 have e4: "extends_by ?P w w4" by (rule extends_by_trans)
        show ?thesis
          using assms s1 s2 s3 s4 Inr r2 r3 e4
          by (cases r4) (simp_all add: updateLead_def)
      qed
    qed
  qed
qed

text \<open>
  Claim C8 fails on \<^verbatim>\<open>updateLeadStatus\<close> and \<^verbatim>\<open>assignLead\<close>, which publish without
  comparing. On a lead whose status is NEW and whose assignee is \<^verbatim>\<open>u7\<close>, setting
  the status to NEW publishes \<^verbatim>\<open>lead.status_changed\<close> with equal previous and new
  status, and assigning \<^verbatim>\<open>u7\<close> publishes \<^verbatim>\<open>lead.assigned\<close> with equal previous and
  new user; the same no-op sent through \<^verbatim>\<open>updateLead\<close> publishes \<^verbatim>\<open>lead.updated\<close>
  only.
\<close>

theorem noop_updates_still_emit:
  "l_status acme_lead = NEW \<and> l_assignedUserId acme_lead = Some ''u7''
   \<and> lead_emitted (snd (updateLeadStatus lead_all_ok ''L1'' NEW one_lead))
       = [(''lead.status_changed'',
           LeadStatusChangedEvent ''L1'' NEW NEW ''system'' ''2024-06-01T12:00:00.000Z'')]
   \<and> lead_emitted (snd (assignLead lead_all_ok ''L1'' ''u7'' one_lead))
       = [(''lead.assigned'',
           LeadAssignedEvent ''L1'' (Some ''u7'') ''u7'' ''2024-06-01T12:00:00.000Z'')]
   \<and> lead_emitted (snd (updateLead lead_all_ok ''L1'' no_change one_lead))
       = [(''lead.updated'',
           LeadUpdatedEvent ''L1'' None None None (Some NEW) ''2024-06-01T12:00:00.000Z'')]"
  by (simp add: updateLeadStatus_def assignLead_def updateLead_def lead_defs one_lead_def
        acme_lead_def lead_all_ok_def no_change_def assign_dto_def)

section \<open>Properties of the gateway\<close>

lemmas sdk_defs =
  UserSdk_createUser_def UserSdk_getUserById_def UserSdk_getUserByEmail_def
  UserSdk_updateUser_def UserSdk_deleteUser_def UserSdk_getAllUsers_def UserSdk_login_def
  UserSdk_refreshToken_def LeadSdk_createLead_def LeadSdk_getLeadById_def
  LeadSdk_updateLead_def LeadSdk_deleteLead_def LeadSdk_getAllLeads_def
  LeadSdk_getLeadsByUserId_def LeadSdk_assignLead_def LeadSdk_updateLeadStatus_def

text \<open>No lead route hands a request configuration to the client, whatever the
  headers of the inbound request are.\<close>

lemma routeLeadService_no_config:
  "routeLeadService req body = Forward rq \<Longrightarrow> r_config rq = JUndefined"
  by (auto simp: routeLeadService_def routeToLeadService_def body_prop_def sdk_defs
        split: if_splits jsvalue.splits)

lemma routeLeadService_ignores_headers:
  "routeLeadService (req\<lparr> req_headers := h \<rparr>) body = routeLeadService req body"
  by (simp add: routeLeadService_def)

text \<open>
  On the GET routes of the user service the header value is passed on, but one
  level too deep: the router's \<^verbatim>\<open>{ headers: { Authorization } }\<close> becomes the
  \<^verbatim>\<open>headers\<close> argument of the SDK method, which wraps it in \<^verbatim>\<open>{ headers }\<close> again.
\<close>

lemma user_get_route_nests_header:
  assumes "getProp hdrs ''authorization'' = JString t" and "t \<noteq> []"
    and "path \<noteq> ''/auth/validate''"
    and "routeToUserService ''GET'' path body hdrs = Forward rq"
  shows "r_config rq
           = JObject [(''headers'', JObject [(''headers'', JObject [(''Authorization'', JString t)])])]
         \<and> authorization_of rq = JUndefined"
  using assms
  by (auto simp: routeToUserService_def sdk_defs authorization_of_def Let_def
        split: if_splits)

text \<open>
  Claim C10 fails on the code. A caller's request \<^verbatim>\<open>GET /leads/\<close> with the header
  \<^verbatim>\<open>authorization: Bearer abc.def.ghi\<close> is forwarded as \<^verbatim>\<open>GET /leads\<close> without any
  request configuration: \<^verbatim>\<open>routeLeadService\<close> does not pass the headers on. The
  same holds for \<^verbatim>\<open>PATCH /users/42\<close>, and on \<^verbatim>\<open>GET /users/42\<close> the request carries
  no \<^verbatim>\<open>Authorization\<close> header where Axios reads it.
\<close>

theorem lead_route_drops_credential:
  "getProp (req_headers (request_to ''GET'' ''/leads/'')) ''authorization''
     = JString ''Bearer abc.def.ghi''
   \<and> routeLeadService (request_to ''GET'' ''/leads/'') JUndefined
       = Forward \<lparr> r_method = ''GET'', r_url = ''/leads'', r_body = JUndefined,
                   r_config = JUndefined \<rparr>
   \<and> routeUserService (request_to ''PATCH'' ''/users/42'') (JObject [])
       = Forward \<lparr> r_method = ''PATCH'', r_url = ''/users/42'', r_body = JObject [],
                   r_config = JUndefined \<rparr>
   \<and> routeUserService (request_to ''GET'' ''/users/42'') JUndefined
       = Forward \<lparr> r_method = ''GET'', r_url = ''/users/42'', r_body = JUndefined,
                   r_config = JObject [(''headers'', JObject [(''headers'',
                       JObject [(''Authorization'', JString ''Bearer abc.def.ghi'')])])] \<rparr>
   \<and> authorization_of
         \<lparr> r_method = ''GET'', r_url = ''/users/42'', r_body = JUndefined,
           r_config = JObject [(''headers'', JObject [(''headers'',
               JObject [(''Authorization'', JString ''Bearer abc.def.ghi'')])])] \<rparr>
       = JUndefined"
  by (simp add: routeLeadService_def routeToLeadService_def routeUserService_def
        routeToUserService_def request_to_def bearer_def sdk_defs startsWith_def
        authorization_of_def)

end
